theory Spec2Isabelle
  imports
    Main
    "HOL-Library.Sublist"
    "HOL-Library.Char_ord"
    "HOL-Library.List_Lexorder"
    "HOL-Library.Product_Lexorder"
begin

section \<open>Strings\<close>

text \<open>
  Page text, tags and \<open>rel\<close> values are \<^typ>\<open>string\<close>s: lists of code units below 256
  (ASCII and Latin-1), a \<^typ>\<open>char\<close> being one code unit. On these,
  \<open>String.prototype.toLowerCase\<close> lowers the letters A to Z and the Latin-1 capitals
  (192 to 222 without the multiplication sign 215), each by adding 32.
  \<open>String.prototype.includes\<close> is the search for a contiguous substring.
\<close>

definition toLowerChar :: "char \<Rightarrow> char" where
  "toLowerChar c =
     (let n = (of_char c :: nat)
      in if (65 \<le> n \<and> n \<le> 90) \<or> (192 \<le> n \<and> n \<le> 222 \<and> n \<noteq> 215)
         then char_of (n + 32) else c)"

definition toLowerCase :: "string \<Rightarrow> string" where
  "toLowerCase s = map toLowerChar s"

fun includes_str :: "string \<Rightarrow> string \<Rightarrow> bool" where
  "includes_str [] t = (t = [])"
| "includes_str (c # cs) t = (prefix t (c # cs) \<or> includes_str cs t)"

section \<open>Link classification in the page (LinkAnalyzer.findTargetLinks)\<close>

datatype link_type = dofollow | nofollow | sponsored | ugc | not_found

text \<open>
  The result object \<open>{ found, linkType, fullATag? }\<close> of both extractors.
\<close>

record link_result =
  found :: bool
  linkType :: link_type
  fullATag :: "string option"

text \<open>
  \<open>found_link\<close> is the element \<open>{ href, fullTag }\<close> of the proxy extractor's
  \<open>foundLinks\<close>; \<open>target_link\<close> is the element \<open>{ href, rel, fullTag, type }\<close>
  that \<open>page.evaluate\<close> returns to \<open>findTargetLinks\<close> (its \<open>type\<close>, which only the log
  reads, is the field \<open>type_of_link\<close>).
\<close>

record found_link =
  href :: string
  fullTag :: string

record target_link = found_link +
  rel :: string
  type_of_link :: string

text \<open>The five locals that the \<open>forEach\<close> over \<open>links\<close> updates.\<close>

record rel_flags =
  hasDofollow :: bool
  hasNofollow :: bool
  hasSponsored :: bool
  hasUgc :: bool
  firstFullTag :: string

definition scan_link :: "rel_flags \<Rightarrow> target_link \<Rightarrow> nat \<Rightarrow> rel_flags" where
  "scan_link f link index =
     (let r = toLowerCase (rel link);
          f1 = (if includes_str r ''nofollow'' then f\<lparr>hasNofollow := True\<rparr> else f);
          f2 = (if includes_str r ''sponsored'' then f1\<lparr>hasSponsored := True\<rparr> else f1);
          f3 = (if includes_str r ''ugc'' then f2\<lparr>hasUgc := True\<rparr> else f2);
          f4 = (if \<not> includes_str r ''nofollow'' then f3\<lparr>hasDofollow := True\<rparr> else f3)
      in if index = 0 then f4\<lparr>firstFullTag := fullTag link\<rparr> else f4)"

fun forEach_links :: "target_link list \<Rightarrow> nat \<Rightarrow> rel_flags \<Rightarrow> rel_flags" where
  "forEach_links [] index f = f"
| "forEach_links (link # links) index f = forEach_links links (Suc index) (scan_link f link index)"

definition no_flags :: rel_flags where
  "no_flags = \<lparr>hasDofollow = False, hasNofollow = False, hasSponsored = False,
                hasUgc = False, firstFullTag = ''''\<rparr>"

definition link_not_found :: link_result where
  "link_not_found = \<lparr>found = False, linkType = not_found, fullATag = None\<rparr>"

text \<open>
  \<open>findTargetLinks\<close> from the point where \<open>page.evaluate\<close> has answered: the argument is
  \<open>Some links\<close>, the candidate list in page order, or \<open>None\<close> when the evaluation threw
  (the \<open>catch\<close> branch).
\<close>

definition findTargetLinks :: "target_link list option \<Rightarrow> link_result" where
  "findTargetLinks evaluated =
     (case evaluated of
        None \<Rightarrow> link_not_found
      | Some links \<Rightarrow>
          if length links = 0 then link_not_found
          else
            let f = forEach_links links 0 no_flags in
            if hasSponsored f then
              \<lparr>found = True, linkType = sponsored, fullATag = Some (firstFullTag f)\<rparr>
            else if hasUgc f then
              \<lparr>found = True, linkType = ugc, fullATag = Some (firstFullTag f)\<rparr>
            else if hasNofollow f \<and> \<not> hasDofollow f then
              \<lparr>found = True, linkType = nofollow, fullATag = Some (firstFullTag f)\<rparr>
            else if hasDofollow f then
              \<lparr>found = True, linkType = dofollow, fullATag = Some (firstFullTag f)\<rparr>
            else \<lparr>found = True, linkType = dofollow, fullATag = Some (firstFullTag f)\<rparr>)"

section \<open>Link classification behind the proxy (ScrapeDoService.extractLinksFromHtml)\<close>

text \<open>
  The regular expression \<open>/rel\s*=\s*["']([^"']*)["']/i\<close>, matched as
  \<open>String.prototype.match\<close> does: at the leftmost position where it matches. Each
  starred class is followed by a character outside the class, so the greedy match is the
  only one at a position. The result is capture group 1. \<open>\s\<close> is the white space of
  the language: below 256 these are tab, line feed, vertical tab, form feed, carriage
  return, space and the no-break space 160. No Latin-1 letter matches \<open>r\<close>, \<open>e\<close> or
  \<open>l\<close> under the flag \<open>i\<close>.
\<close>

definition isSpace :: "char \<Rightarrow> bool" where
  "isSpace c =
     (c \<in> {CHR 0x09, CHR 0x0A, CHR 0x0B, CHR 0x0C, CHR 0x0D, CHR '' '', CHR 0xA0})"

definition isQuote :: "char \<Rightarrow> bool" where
  "isQuote c = (c = CHR 0x22 \<or> c = CHR 0x27)"

definition relMatchAt :: "string \<Rightarrow> string option" where
  "relMatchAt s =
     (case s of
        r # e # l # s1 \<Rightarrow>
          if toLowerChar r = CHR ''r'' \<and> toLowerChar e = CHR ''e'' \<and> toLowerChar l = CHR ''l''
          then
            (case dropWhile isSpace s1 of
               eq # s2 \<Rightarrow>
                 if eq = CHR ''='' then
                   (case dropWhile isSpace s2 of
                      q # s3 \<Rightarrow>
                        if isQuote q then
                          (case dropWhile (\<lambda>c. \<not> isQuote c) s3 of
                             q' # s4 \<Rightarrow> Some (takeWhile (\<lambda>c. \<not> isQuote c) s3)
                           | [] \<Rightarrow> None)
                        else None
                    | [] \<Rightarrow> None)
                 else None
             | [] \<Rightarrow> None)
          else None
      | _ \<Rightarrow> None)"

fun relMatch :: "string \<Rightarrow> string option" where
  "relMatch [] = None"
| "relMatch (c # cs) =
     (case relMatchAt (c # cs) of Some v \<Rightarrow> Some v | None \<Rightarrow> relMatch cs)"

text \<open>
  \<open>extractLinksFromHtml\<close> from the point where the regular-expression passes over the
  HTML have filled \<open>foundLinks\<close> (anchors first; text, meta tags, data attributes and
  scripts only while the list is still empty). An anchor hit carries the whole matched
  anchor as \<open>fullTag\<close>. Only the first hit is classified.
\<close>

definition extractLinksFromHtml :: "found_link list \<Rightarrow> link_result" where
  "extractLinksFromHtml foundLinks =
     (case foundLinks of
        [] \<Rightarrow> link_not_found
      | firstLink # _ \<Rightarrow>
          let tag = fullTag firstLink;
              relValue = (case relMatch tag of None \<Rightarrow> '''' | Some v \<Rightarrow> toLowerCase v);
              lt = (if includes_str relValue ''nofollow'' then nofollow
                    else if includes_str relValue ''sponsored'' then sponsored
                    else if includes_str relValue ''ugc'' then ugc
                    else dofollow)
          in \<lparr>found = True, linkType = lt, fullATag = Some tag\<rparr>)"

section \<open>The Redis priority queue (QueueService)\<close>

datatype job_type = manual | google_sheets

fun type_str :: "job_type \<Rightarrow> string" where
  "type_str manual = ''manual''"
| "type_str google_sheets = ''google_sheets''"

text \<open>
  The job payloads. \<open>LinkAnalysisJobData\<close> is the interface of the BullMQ service (its
  \<open>id\<close> is the field \<open>job_id\<close> here, its optional \<open>attempts\<close> an option); \<open>QueueItem\<close>,
  the interface of the Redis queue, has the same fields and adds \<open>createdAt\<close> and
  \<open>maxAttempts\<close>. A \<open>Date\<close> is its \<open>getTime()\<close>: milliseconds since the epoch.
\<close>

record LinkAnalysisJobData =
  job_id :: string
  type :: job_type
  userId :: string
  projectId :: string
  linkId :: "string option"
  sheetId :: "string option"
  url :: string
  targetDomain :: string
  priority :: int
  attempts :: "nat option"

record QueueItem = LinkAnalysisJobData +
  createdAt :: int
  maxAttempts :: nat

fun getUserPriority :: "string \<Rightarrow> int" where
  "getUserPriority plan =
     (if plan = ''enterprise'' then 1
      else if plan = ''pro'' then 2
      else if plan = ''starter'' then 3
      else 4)"

text \<open>
  \<open>calculateScore\<close> returns \<open>-priority * 1e13 - ts\<close>. The source computes it in double
  precision; for the priorities 1 to 4 and every valid \<open>Date\<close> (at most 8.64e15 ms from
  the epoch) all values are integers below \<open>2^53\<close>, where that arithmetic is exact.
\<close>

definition calculateScore :: "int \<Rightarrow> int \<Rightarrow> int" where
  "calculateScore p ts = - p * 10 ^ 13 - ts"

text \<open>
  The only source of a \<open>createdAt\<close> is the clock: \<open>addToQueue\<close> stamps the item with
  \<open>new Date()\<close>, and \<open>clearProcessingQueue\<close> reads that stamp back from the stored item.
  A clock reading is a count of milliseconds since the epoch of at most thirteen digits
  (the fourteenth comes in the year 2286).
\<close>

definition clockReading :: "int \<Rightarrow> bool" where
  "clockReading ts = (0 \<le> ts \<and> ts < 10 ^ 13)"

text \<open>
  The Redis sorted set under \<open>PRIORITY_QUEUE_KEY\<close>: pairs of a score and a member (the
  JSON text of a \<open>QueueItem\<close>), each member at most once. \<open>ZADD\<close> stores a member with
  its score, replacing the score of a member already there; \<open>ZPOPMAX\<close> removes and
  returns the member with the highest score, among equal scores the greatest member in
  byte order; \<open>ZCARD\<close> counts the members. A Redis server that cannot be reached is
  not modelled.
\<close>

type_synonym zentry = "int \<times> string"

type_synonym zset = "zentry list"

definition zAdd :: "zset \<Rightarrow> zentry \<Rightarrow> zset" where
  "zAdd q e = e # filter (\<lambda>x. snd x \<noteq> snd e) q"

definition zCard :: "zset \<Rightarrow> nat" where
  "zCard q = length q"

definition zPopMax :: "zset \<Rightarrow> (zentry \<times> zset) option" where
  "zPopMax q =
     (case q of
        [] \<Rightarrow> None
      | e # es \<Rightarrow> (let m = fold max es e in Some (m, remove1 m q)))"

text \<open>
  The \<open>id\<close> of a queue item, \<open>`${type}_${Date.now()}_${Math.random().toString(36).substr(2, 9)}`\<close>:
  the clock reading is printed in decimal, the random suffix is an input.
\<close>

fun digits :: "nat \<Rightarrow> string" where
  "digits n =
     (if n < 10 then [''0123456789'' ! n] else digits (n div 10) @ [''0123456789'' ! (n mod 10)])"

declare digits.simps [simp del]

definition show_int :: "int \<Rightarrow> string" where
  "show_int i = (if i < 0 then CHR ''-'' # digits (nat (- i)) else digits (nat i))"

definition queueItemId :: "job_type \<Rightarrow> int \<Rightarrow> string \<Rightarrow> string" where
  "queueItemId t dateNow rnd = type_str t @ ''_'' @ show_int dateNow @ ''_'' @ rnd"

text \<open>The member and score that \<open>addToQueue\<close> and \<open>clearProcessingQueue\<close> write for an item.\<close>

definition queueEntry :: "(QueueItem \<Rightarrow> string) \<Rightarrow> QueueItem \<Rightarrow> zentry" where
  "queueEntry stringify item = (calculateScore (priority item) (createdAt item), stringify item)"

text \<open>
  \<open>addToQueue\<close>. Its surroundings are arguments: \<open>stringify\<close> is \<open>JSON.stringify\<close>,
  \<open>findById\<close> gives the subscription plan of a user (\<open>None\<close>: no such user, the call
  throws), \<open>dateNow\<close> and \<open>newDate\<close> are the two clock readings, \<open>rnd\<close> the random
  suffix, \<open>q\<close> the sorted set before the call. The logging after \<open>zAdd\<close> changes nothing.
\<close>

definition addToQueue ::
  "(QueueItem \<Rightarrow> string) \<Rightarrow> (string \<Rightarrow> string option) \<Rightarrow> int \<Rightarrow> string \<Rightarrow> int \<Rightarrow> zset \<Rightarrow>
   job_type \<Rightarrow> string \<Rightarrow> string \<Rightarrow> string \<Rightarrow> string \<Rightarrow> string option \<Rightarrow> string option \<Rightarrow>
   string + zset" where
  "addToQueue stringify findById dateNow rnd newDate q t uid pid u td lid sid =
     (case findById uid of
        None \<Rightarrow> Inl (''User '' @ uid @ '' not found'')
      | Some subscription_plan \<Rightarrow>
          let p = getUserPriority subscription_plan;
              queueItem = \<lparr>job_id = queueItemId t dateNow rnd, type = t, userId = uid,
                           projectId = pid, linkId = lid, sheetId = sid, url = u,
                           targetDomain = td, priority = p, attempts = Some 0,
                           createdAt = newDate, maxAttempts = 3\<rparr>
          in Inr (zAdd q (queueEntry stringify queueItem)))"

text \<open>
  The leases of \<open>processNextItem\<close>: each call takes the \<open>zPopMax\<close> of the sorted set
  (the client's answer is read as the code reads it, \<open>result[0]\<close> being the popped
  member) and returns at once when the set is empty; what the call does with the item
  afterwards (the processing list, the analysis, the result) leaves the sorted set alone.
  \<open>leaseOrder q\<close> lists, in order, what successive calls of the workers take from \<open>q\<close>
  until it is empty; \<open>leased_before a b xs\<close> says that \<open>a\<close> is taken and \<open>b\<close> is taken
  later.
\<close>

function leaseOrder :: "zset \<Rightarrow> zentry list" where
  "leaseOrder q = (case zPopMax q of None \<Rightarrow> [] | Some (m, q') \<Rightarrow> m # leaseOrder q')"
  by pat_completeness auto
termination
proof (relation "measure length")
  show "wf (measure length)" by simp
next
  fix q :: zset and x2 m q'
  assume "zPopMax q = Some x2" and "(m, q') = x2"
  then obtain e es where q: "q = e # es" and m: "m = fold max es e" and q': "q' = remove1 m q"
    by (auto simp: zPopMax_def Let_def split: list.splits)
  have "m = Max (set q)" using q m Max.set_eq_fold[of e es] by simp
  then have "m \<in> set q" using q Max_in[of "set q"] by simp
  moreover from this have "0 < length q" by (cases q) simp_all
  ultimately show "(q', q) \<in> measure length" using q' by (simp add: length_remove1)
qed

declare leaseOrder.simps [simp del]

definition leased_before :: "'a \<Rightarrow> 'a \<Rightarrow> 'a list \<Rightarrow> bool" where
  "leased_before a b xs = (a \<in> set xs \<and> b \<in> set (tl (dropWhile (\<lambda>x. x \<noteq> a) xs)))"

section \<open>The BullMQ queue (BullMQService)\<close>

definition MAX_ATTEMPTS :: nat where
  "MAX_ATTEMPTS = 3"

definition BACKOFF_DELAY :: nat where
  "BACKOFF_DELAY = 2000"

text \<open>A BullMQ job: its id, its payload, and the options and counter the service reads.\<close>

record bull_job =
  jobId :: string
  data :: LinkAnalysisJobData
  opts_priority :: int
  opts_attempts :: nat
  attemptsMade :: nat

text \<open>\<open>BullMQService.getUserPriority\<close> answers 1 for every user.\<close>

definition getUserPriorityBull :: "string \<Rightarrow> int" where
  "getUserPriorityBull uid = 1"

text \<open>\<open>...(linkId && { linkId })\<close>: an absent or empty string leaves the field out.\<close>

definition truthy :: "string option \<Rightarrow> string option" where
  "truthy v = (case v of None \<Rightarrow> None | Some s \<Rightarrow> if s = [] then None else Some s)"

text \<open>The object literal \<open>jobData\<close> of \<open>addLinkAnalysisJob\<close>; its id is \<open>`${type}:${url}`\<close>.\<close>

definition jobData ::
  "job_type \<Rightarrow> string \<Rightarrow> string \<Rightarrow> string \<Rightarrow> string \<Rightarrow> string option \<Rightarrow> string option \<Rightarrow> int
     \<Rightarrow> LinkAnalysisJobData" where
  "jobData t uid pid u td lid sid p =
     \<lparr>job_id = type_str t @ '':'' @ u, type = t, userId = uid, projectId = pid,
      linkId = truthy lid, sheetId = truthy sid, url = u, targetDomain = td,
      priority = p, attempts = Some 0\<rparr>"

text \<open>
  Modelled from the spec: BullMQ's \<open>Queue.add\<close> is library code outside the repository.
  Enqueue "deduplicates on job_id across the entire waiting set: re-enqueueing an id
  already waiting is a no-op"; any other job joins the waiting set.
\<close>

definition queue_add :: "bull_job list \<Rightarrow> bull_job \<Rightarrow> bull_job list" where
  "queue_add waiting j = (if jobId j \<in> set (map jobId waiting) then waiting else waiting @ [j])"

text \<open>
  \<open>addLinkAnalysisJob\<close> on the waiting set of the queue; \<open>None\<close> is the queue before
  \<open>initialize\<close>, when the call throws.
\<close>

definition addLinkAnalysisJob ::
  "bull_job list option \<Rightarrow> job_type \<Rightarrow> string \<Rightarrow> string \<Rightarrow> string \<Rightarrow> string \<Rightarrow>
   string option \<Rightarrow> string option \<Rightarrow> string + bull_job list" where
  "addLinkAnalysisJob linkAnalysisQueue t uid pid u td lid sid =
     (case linkAnalysisQueue of
        None \<Rightarrow> Inl ''BullMQ Service not initialized''
      | Some waiting \<Rightarrow>
          let p = getUserPriorityBull uid;
              d = jobData t uid pid u td lid sid p
          in Inr (queue_add waiting
                \<lparr>jobId = job_id d, data = d, opts_priority = p,
                 opts_attempts = MAX_ATTEMPTS, attemptsMade = 0\<rparr>))"

subsection \<open>The processor\<close>

text \<open>
  What a call can do: return a value or throw. A thrown value is an \<open>Error\<close> with its
  message, or something else (reported as \<open>Unknown error\<close>).
\<close>

datatype thrown = Error string | NonError

datatype 'a outcome = Returned 'a | Threw thrown

text \<open>
  \<open>AnalysisJobResult\<close>; the analyser's \<open>LinkAnalysisResult\<close> is passed through
  untouched, so its type is the parameter \<open>'r\<close>.
\<close>

record 'r AnalysisJobResult =
  success :: bool
  result :: "'r option"
  error :: "string option"
  processedAt :: int

definition error_message :: "thrown \<Rightarrow> string" where
  "error_message e = (case e of Error m \<Rightarrow> m | NonError \<Rightarrow> ''Unknown error'')"

definition job_failure :: "thrown \<Rightarrow> int \<Rightarrow> 'r AnalysisJobResult" where
  "job_failure e now =
     \<lparr>success = False, result = None, error = Some (error_message e), processedAt = now\<rparr>"

text \<open>
  \<open>processLinkAnalysisJob\<close>. \<open>analysed\<close> is what \<open>LinkAnalyzer.analyzeLink\<close> did,
  \<open>updated\<close> what \<open>ManualLinkModel.update\<close> did (called only for a manual job with a
  link id), \<open>now\<close> the clock. \<open>sendRealTimeUpdate\<close> catches its own errors. Everything
  thrown inside the \<open>try\<close> lands in the \<open>catch\<close>, which returns a result object.
\<close>

definition processLinkAnalysisJob ::
  "bull_job \<Rightarrow> 'r outcome \<Rightarrow> unit outcome \<Rightarrow> int \<Rightarrow> 'r AnalysisJobResult outcome" where
  "processLinkAnalysisJob job analysed updated now =
     (case analysed of
        Threw e \<Rightarrow> Returned (job_failure e now)
      | Returned r \<Rightarrow>
          (case (if type (data job) = manual \<and> truthy (linkId (data job)) \<noteq> None
                 then updated else Returned ()) of
             Threw e \<Rightarrow> Returned (job_failure e now)
           | Returned _ \<Rightarrow>
               Returned \<lparr>success = True, result = Some r, error = None, processedAt = now\<rparr>))"

text \<open>
  Modelled from the spec: the BullMQ worker that calls the processor and settles the job
  is library code outside the repository. \<open>Fail\<close>: "if \<open>attempts + 1 < max_attempts\<close>,
  re-enqueue with \<open>attempts++\<close> and backoff \<open>base * 2^attempts\<close>; otherwise move to a
  dead-letter store". A processor call that returns completes the job; one that throws
  fails it.
\<close>

datatype 'r job_fate = Completed "'r AnalysisJobResult" | Retry nat nat | DeadLetter string

definition Fail :: "bull_job \<Rightarrow> string \<Rightarrow> 'r job_fate" where
  "Fail job reason =
     (if attemptsMade job + 1 < opts_attempts job
      then Retry (attemptsMade job + 1) (BACKOFF_DELAY * 2 ^ attemptsMade job)
      else DeadLetter reason)"

definition worker_settle :: "bull_job \<Rightarrow> 'r AnalysisJobResult outcome \<Rightarrow> 'r job_fate" where
  "worker_settle job out =
     (case out of Returned r \<Rightarrow> Completed r | Threw e \<Rightarrow> Fail job (error_message e))"

section \<open>Vocabulary of the properties\<close>

text \<open>A candidate link mentions a word when its lowered \<open>rel\<close> value includes it.\<close>

definition mentions :: "string \<Rightarrow> target_link \<Rightarrow> bool" where
  "mentions w link = includes_str (toLowerCase (rel link)) w"

section \<open>Example inputs\<close>

text \<open>An anchor with two \<open>rel\<close> tokens, as the page and as the proxy's HTML carry it.\<close>

definition ex_anchor :: string where
  "ex_anchor = ''<a rel=\"nofollow sponsored\" href=\"https://target.com/x\">x</a>''"

definition ex_target_link :: target_link where
  "ex_target_link = \<lparr>href = ''https://target.com/x'', fullTag = ex_anchor,
                      rel = ''nofollow sponsored'', type_of_link = ''anchor''\<rparr>"

definition ex_found_link :: found_link where
  "ex_found_link = \<lparr>href = ''https://target.com/x'', fullTag = ex_anchor\<rparr>"

text \<open>
  Three users with their plans, and the queue items of a free, a pro and an enterprise
  user, enqueued in this order one millisecond apart. The items' ids stand in for their
  JSON text.
\<close>

definition ex_users :: "string \<Rightarrow> string option" where
  "ex_users uid =
     (if uid = ''user-free'' then Some ''free''
      else if uid = ''user-pro'' then Some ''pro''
      else if uid = ''user-enterprise'' then Some ''enterprise''
      else None)"

definition ex_item :: "string \<Rightarrow> string \<Rightarrow> int \<Rightarrow> int \<Rightarrow> QueueItem" where
  "ex_item uid rnd p ts =
     \<lparr>job_id = queueItemId manual ts rnd, type = manual, userId = uid,
      projectId = ''project-1'', linkId = Some ''link-1'', sheetId = None,
      url = ''https://blog.example/post'', targetDomain = ''target.com'', priority = p,
      attempts = Some 0, createdAt = ts, maxAttempts = 3\<rparr>"

definition ex_free :: QueueItem where
  "ex_free = ex_item ''user-free'' ''a1b2c3d4e'' 4 1700000000000"

definition ex_pro :: QueueItem where
  "ex_pro = ex_item ''user-pro'' ''f5g6h7i8j'' 2 1700000000001"

definition ex_enterprise :: QueueItem where
  "ex_enterprise = ex_item ''user-enterprise'' ''k9l0m1n2o'' 1 1700000000002"

text \<open>\<open>addToQueue\<close> for the example users: one manual link of project-1, clock \<open>ts\<close>.\<close>

definition ex_enqueue :: "string \<Rightarrow> string \<Rightarrow> int \<Rightarrow> zset \<Rightarrow> string + zset" where
  "ex_enqueue uid rnd ts q =
     addToQueue job_id ex_users ts rnd ts q manual uid ''project-1''
       ''https://blog.example/post'' ''target.com'' (Some ''link-1'') None"

text \<open>A manual BullMQ job on its first attempt.\<close>

definition ex_job :: bull_job where
  "ex_job =
     \<lparr>jobId = ''manual:https://blog.example/post'',
      data = jobData manual ''user-1'' ''project-1'' ''https://blog.example/post''
               ''target.com'' (Some ''link-1'') None 1,
      opts_priority = 1, opts_attempts = MAX_ATTEMPTS, attemptsMade = 0\<rparr>"

section \<open>Properties of the link classification\<close>

lemma forEach_links_flags:
  "hasSponsored (forEach_links links i f) = (hasSponsored f \<or> list_ex (mentions ''sponsored'') links)"
  "hasUgc (forEach_links links i f) = (hasUgc f \<or> list_ex (mentions ''ugc'') links)"
  "hasNofollow (forEach_links links i f) = (hasNofollow f \<or> list_ex (mentions ''nofollow'') links)"
  "hasDofollow (forEach_links links i f) = (hasDofollow f \<or> \<not> list_all (mentions ''nofollow'') links)"
  by (induction links arbitrary: i f; auto simp: scan_link_def Let_def mentions_def)+

lemma forEach_links_first:
  "firstFullTag (forEach_links links i f) =
     (if i = 0 \<and> links \<noteq> [] then fullTag (hd links) else firstFullTag f)"
  by (induction links arbitrary: i f; auto simp: scan_link_def Let_def)

lemma findTargetLinks_precedence:
  assumes "links \<noteq> []"
  shows "findTargetLinks (Some links) =
     \<lparr>found = True,
      linkType =
        (if list_ex (mentions ''sponsored'') links then sponsored
         else if list_ex (mentions ''ugc'') links then ugc
         else if list_all (mentions ''nofollow'') links then nofollow
         else dofollow),
      fullATag = Some (fullTag (hd links))\<rparr>"
proof (cases links)
  case Nil
  with assms show ?thesis by simp
next
  case (Cons link more)
  have "findTargetLinks (Some links) =
      (let f = forEach_links links 0 no_flags in
       \<lparr>found = True,
        linkType = (if hasSponsored f then sponsored else if hasUgc f then ugc
                    else if hasNofollow f \<and> \<not> hasDofollow f then nofollow else dofollow),
        fullATag = Some (firstFullTag f)\<rparr>)"
    using assms by (simp add: findTargetLinks_def Let_def)
  moreover have "list_all (mentions ''nofollow'') links \<Longrightarrow> list_ex (mentions ''nofollow'') links"
    using Cons by simp
  ultimately show ?thesis
    using assms
    by (auto simp: Let_def forEach_links_flags forEach_links_first no_flags_def)
qed

lemma extractLinksFromHtml_precedence:
  "linkType (extractLinksFromHtml (firstLink # moreLinks)) =
     (let relValue = (case relMatch (fullTag firstLink) of None \<Rightarrow> '''' | Some v \<Rightarrow> toLowerCase v)
      in if includes_str relValue ''nofollow'' then nofollow
         else if includes_str relValue ''sponsored'' then sponsored
         else if includes_str relValue ''ugc'' then ugc
         else dofollow)"
  by (simp add: extractLinksFromHtml_def Let_def)

lemma relMatch_ex_anchor: "relMatch ex_anchor = Some ''nofollow sponsored''"
  by (simp add: ex_anchor_def relMatchAt_def toLowerChar_def isSpace_def isQuote_def)

lemma relMatch_no_break_space:
  "relMatch (''<a rel'' @ [CHR 0xA0] @ ''=\"NoFollow\" href=\"https://target.com/x\">'')
     = Some ''NoFollow''"
  by (simp add: relMatchAt_def toLowerChar_def isSpace_def isQuote_def)

lemma toLowerCase_ex: "toLowerCase ''nofollow sponsored'' = ''nofollow sponsored''"
  by (simp add: toLowerCase_def toLowerChar_def)

text \<open>
  Claim C1: the page classifier takes the flags of all candidate links together, with
  sponsored before ugc, ugc before nofollow (which needs every candidate to be nofollow),
  and dofollow otherwise (see the lemma on its precedence above); the proxy extractor
  should classify its first hit with the same precedence. It does not: it tests nofollow
  first. On the anchor \<open><a rel="nofollow sponsored" href="https://target.com/x">x</a>\<close>
  the page classifier answers sponsored and the proxy extractor answers nofollow.
\<close>

theorem proxy_precedence_differs:
  "linkType (findTargetLinks (Some [ex_target_link])) = sponsored
   \<and> linkType (extractLinksFromHtml [ex_found_link]) = nofollow"
  by (simp add: findTargetLinks_def extractLinksFromHtml_def ex_target_link_def ex_found_link_def
      relMatch_ex_anchor toLowerCase_ex scan_link_def no_flags_def Let_def)

section \<open>Properties of the priority queue\<close>

lemma zPopMax_Some:
  assumes "zPopMax q = Some (m, q')"
  shows "m \<in> set q" and "q' = remove1 m q" and "\<And>e. e \<in> set q \<Longrightarrow> e \<le> m"
proof -
  from assms obtain e es where q: "q = e # es" and m: "m = fold max es e" and q': "q' = remove1 m q"
    by (auto simp: zPopMax_def Let_def split: list.splits)
  have mx: "m = Max (set q)" using q m Max.set_eq_fold[of e es] by simp
  show "m \<in> set q" using mx q Max_in[of "set q"] by simp
  show "q' = remove1 m q" by (rule q')
  show "\<And>e. e \<in> set q \<Longrightarrow> e \<le> m" using mx by simp
qed

lemma zPopMax_None: "zPopMax q = None \<Longrightarrow> q = []"
  by (auto simp: zPopMax_def Let_def split: list.splits)

lemma leaseOrder_Nil: "zPopMax q = None \<Longrightarrow> leaseOrder q = []"
  by (subst leaseOrder.simps) simp

lemma leaseOrder_Cons: "zPopMax q = Some (m, q') \<Longrightarrow> leaseOrder q = m # leaseOrder q'"
  by (subst leaseOrder.simps) simp

lemma set_leaseOrder: "set (leaseOrder q) = set q"
proof (induction q rule: leaseOrder.induct)
  case (1 q)
  show ?case
  proof (cases "zPopMax q")
    case None
    then show ?thesis by (simp add: leaseOrder_Nil zPopMax_None)
  next
    case (Some r)
    obtain m q' where r: "r = (m, q')" by (cases r)
    from Some r have pm: "zPopMax q = Some (m, q')" by simp
    have ih: "set (leaseOrder q') = set q'" using "1.IH"[OF pm refl] .
    have "insert m (set q') = set q"
    proof -
      have "m \<in> set q" and q': "q' = remove1 m q" using zPopMax_Some(1,2)[OF pm] .
      moreover have "set q' \<subseteq> set q" unfolding q' by (rule set_remove1_subset)
      moreover have "x \<in> set q \<Longrightarrow> x \<noteq> m \<Longrightarrow> x \<in> set q'" for x
        unfolding q' by (simp add: in_set_remove1)
      ultimately show ?thesis by blast
    qed
    with ih pm show ?thesis by (simp add: leaseOrder_Cons)
  qed
qed

lemma leased_before_leaseOrder:
  "a \<in> set q \<Longrightarrow> b \<in> set q \<Longrightarrow> b < a \<Longrightarrow> leased_before a b (leaseOrder q)"
proof (induction q rule: leaseOrder.induct)
  case (1 q)
  from "1.prems"(1) obtain m q' where pm: "zPopMax q = Some (m, q')"
    by (cases q) (auto simp: zPopMax_def Let_def)
  note P = zPopMax_Some[OF pm]
  show ?case
  proof (cases "m = a")
    case True
    have "b \<in> set q'" using P(2) "1.prems" True by (simp add: in_set_remove1)
    then show ?thesis using pm True
      by (simp add: leaseOrder_Cons leased_before_def set_leaseOrder)
  next
    case False
    have "a \<le> m" using P(3) "1.prems"(1) by blast
    with "1.prems"(3) have "m \<noteq> b" by auto
    have "a \<in> set q'" "b \<in> set q'"
      using P(2) "1.prems" False \<open>m \<noteq> b\<close> by (simp_all add: in_set_remove1)
    then have "leased_before a b (leaseOrder q')"
      using "1.IH"[OF pm refl] "1.prems"(3) by blast
    then show ?thesis using pm False
      by (simp add: leaseOrder_Cons leased_before_def)
  qed
qed

text \<open>While an entry waits, no entry below it is taken: the step behind the order.\<close>

lemma zPopMax_keeps_lower:
  "zPopMax q = Some (m, q') \<Longrightarrow> a \<in> set q \<Longrightarrow> b < a \<Longrightarrow> m \<noteq> b"
  using zPopMax_Some(3)[of q m q' a] by auto

lemma calculateScore_priority:
  assumes "p < p'" and "ts < ts' + 10 ^ 13"
  shows "calculateScore p' ts' < calculateScore p ts"
proof -
  from assms(1) have "p + 1 \<le> p'" by simp
  then have "(p + 1) * 10 ^ 13 \<le> p' * (10 ^ 13 :: int)"
    by (rule mult_right_mono) simp
  with assms(2) show ?thesis by (simp add: calculateScore_def algebra_simps)
qed

lemma calculateScore_fifo: "ts < ts' \<Longrightarrow> calculateScore p ts' < calculateScore p ts"
  by (simp add: calculateScore_def)

lemma queueEntry_less:
  assumes "(priority A < priority B \<and> createdAt A < createdAt B + 10 ^ 13)
         \<or> (priority A = priority B \<and> createdAt A < createdAt B)"
  shows "queueEntry stringify B < queueEntry stringify A"
proof -
  have "calculateScore (priority B) (createdAt B) < calculateScore (priority A) (createdAt A)"
    using assms calculateScore_priority[of "priority A" "priority B" "createdAt A" "createdAt B"]
      calculateScore_fifo[of "createdAt A" "createdAt B" "priority A"]
    by auto
  then show ?thesis by (simp add: queueEntry_def less_prod_def)
qed

lemma queueEntry_less_clock:
  assumes "(priority A < priority B \<and> clockReading (createdAt A) \<and> clockReading (createdAt B))
         \<or> (priority A = priority B \<and> createdAt A < createdAt B)"
  shows "queueEntry stringify B < queueEntry stringify A"
proof (rule queueEntry_less)
  show "(priority A < priority B \<and> createdAt A < createdAt B + 10 ^ 13)
         \<or> (priority A = priority B \<and> createdAt A < createdAt B)"
    using assms by (auto simp: clockReading_def)
qed

text \<open>
  Why the stamps have to be clock readings: one priority step weighs \<open>10^13\<close> ms in the
  score, which no two clock readings are apart.
\<close>

lemma calculateScore_step: "calculateScore p (ts + 10 ^ 13) = calculateScore (p + 1) ts"
  by (simp add: calculateScore_def algebra_simps)

text \<open>
  One lease at a time, whatever is enqueued in between: while A waits, the next lease is
  not B, and A is either taken or still waiting afterwards.
\<close>

lemma next_lease_respects_order:
  assumes "queueEntry stringify A \<in> set q" and "queueEntry stringify B \<in> set q"
    and "(priority A < priority B \<and> clockReading (createdAt A) \<and> clockReading (createdAt B))
         \<or> (priority A = priority B \<and> createdAt A < createdAt B)"
    and "zPopMax q = Some (m, q')"
  shows "m \<noteq> queueEntry stringify B"
    and "m = queueEntry stringify A \<or> queueEntry stringify A \<in> set q'"
proof -
  have less: "queueEntry stringify B < queueEntry stringify A"
    using assms(3) by (rule queueEntry_less_clock)
  show "m \<noteq> queueEntry stringify B"
    using zPopMax_keeps_lower[OF assms(4) assms(1) less] .
  show "m = queueEntry stringify A \<or> queueEntry stringify A \<in> set q'"
  proof (cases "m = queueEntry stringify A")
    case True
    then show ?thesis by simp
  next
    case False
    then have "queueEntry stringify A \<in> set (remove1 m q)"
      using assms(1) by (simp add: in_set_remove1)
    then show ?thesis using zPopMax_Some(2)[OF assms(4)] by simp
  qed
qed

lemma addToQueue_enqueues:
  assumes "findById uid = Some plan"
  shows "addToQueue stringify findById dateNow rnd newDate q t uid pid u td lid sid =
     Inr (zAdd q (queueEntry stringify
       \<lparr>job_id = queueItemId t dateNow rnd, type = t, userId = uid, projectId = pid,
        linkId = lid, sheetId = sid, url = u, targetDomain = td,
        priority = getUserPriority plan, attempts = Some 0, createdAt = newDate,
        maxAttempts = 3\<rparr>))"
  using assms by (simp add: addToQueue_def Let_def del: getUserPriority.simps)

lemma getUserPriority_range: "getUserPriority plan \<in> {1, 2, 3, 4}"
  by simp

text \<open>
  Claim C2: of two jobs A and B waiting in the priority queue, if A has the lower priority
  number, then A is leased (popped) before B; and of two waiting jobs with the same
  priority, the one with the earlier enqueue time is leased first. The enqueue times are
  clock readings, which the priority half rests on.
\<close>

theorem lease_order_priority_then_fifo:
  assumes "queueEntry stringify A \<in> set q" and "queueEntry stringify B \<in> set q"
    and "(priority A < priority B \<and> clockReading (createdAt A) \<and> clockReading (createdAt B))
         \<or> (priority A = priority B \<and> createdAt A < createdAt B)"
  shows "leased_before (queueEntry stringify A) (queueEntry stringify B) (leaseOrder q)"
proof -
  have "queueEntry stringify B < queueEntry stringify A"
    using assms(3) by (rule queueEntry_less_clock)
  with assms(1,2) show ?thesis by (simp add: leased_before_leaseOrder)
qed

lemma ex_scores:
  "queueEntry job_id ex_free = (- 41700000000000, ''manual_1700000000000_a1b2c3d4e'')"
  "queueEntry job_id ex_pro = (- 21700000000001, ''manual_1700000000001_f5g6h7i8j'')"
  "queueEntry job_id ex_enterprise = (- 11700000000002, ''manual_1700000000002_k9l0m1n2o'')"
  by (simp_all add: queueEntry_def calculateScore_def ex_free_def ex_pro_def ex_enterprise_def
      ex_item_def queueItemId_def show_int_def digits.simps)

lemma ex_enqueue_entry:
  "ex_enqueue ''user-free'' ''a1b2c3d4e'' 1700000000000 q = Inr (zAdd q (queueEntry job_id ex_free))"
  "ex_enqueue ''user-pro'' ''f5g6h7i8j'' 1700000000001 q = Inr (zAdd q (queueEntry job_id ex_pro))"
  "ex_enqueue ''user-enterprise'' ''k9l0m1n2o'' 1700000000002 q
     = Inr (zAdd q (queueEntry job_id ex_enterprise))"
  by (simp_all add: ex_enqueue_def addToQueue_def ex_users_def ex_free_def ex_pro_def
      ex_enterprise_def ex_item_def Let_def)

text \<open>
  Claim C2 at work: a free, a pro and an enterprise job enqueued in this order are leased
  enterprise, pro, free.
\<close>

theorem lease_order_witness:
  "ex_enqueue ''user-free'' ''a1b2c3d4e'' 1700000000000 [] = Inr [queueEntry job_id ex_free]
   \<and> ex_enqueue ''user-pro'' ''f5g6h7i8j'' 1700000000001 [queueEntry job_id ex_free]
       = Inr [queueEntry job_id ex_pro, queueEntry job_id ex_free]
   \<and> ex_enqueue ''user-enterprise'' ''k9l0m1n2o'' 1700000000002
         [queueEntry job_id ex_pro, queueEntry job_id ex_free]
       = Inr [queueEntry job_id ex_enterprise, queueEntry job_id ex_pro, queueEntry job_id ex_free]
   \<and> priority ex_enterprise < priority ex_free
   \<and> clockReading (createdAt ex_enterprise) \<and> clockReading (createdAt ex_free)
   \<and> leased_before (queueEntry job_id ex_enterprise) (queueEntry job_id ex_free)
       (leaseOrder [queueEntry job_id ex_enterprise, queueEntry job_id ex_pro, queueEntry job_id ex_free])
   \<and> leaseOrder [queueEntry job_id ex_enterprise, queueEntry job_id ex_pro, queueEntry job_id ex_free]
       = [queueEntry job_id ex_enterprise, queueEntry job_id ex_pro, queueEntry job_id ex_free]"
proof (intro conjI)
  show "leased_before (queueEntry job_id ex_enterprise) (queueEntry job_id ex_free)
     (leaseOrder [queueEntry job_id ex_enterprise, queueEntry job_id ex_pro, queueEntry job_id ex_free])"
    by (rule lease_order_priority_then_fifo)
      (simp_all add: ex_free_def ex_enterprise_def ex_item_def clockReading_def)
  show "leaseOrder [queueEntry job_id ex_enterprise, queueEntry job_id ex_pro, queueEntry job_id ex_free]
       = [queueEntry job_id ex_enterprise, queueEntry job_id ex_pro, queueEntry job_id ex_free]"
    by (simp add: ex_scores leaseOrder.simps zPopMax_def)
  show "priority ex_enterprise < priority ex_free"
    by (simp add: ex_free_def ex_enterprise_def ex_item_def)
  show "clockReading (createdAt ex_enterprise)" and "clockReading (createdAt ex_free)"
    by (simp_all add: ex_free_def ex_enterprise_def ex_item_def clockReading_def)
qed (simp_all add: ex_enqueue_entry zAdd_def ex_scores)

section \<open>Properties of the job ids\<close>

text \<open>
  What \<open>addLinkAnalysisJob\<close> does: the id is made of the kind and the URL and of nothing
  else; a job whose id is not waiting joins the waiting set under that id with the
  caller's project and link; a job whose id is waiting is dropped.
\<close>

lemma job_id_jobData: "job_id (jobData t uid pid u td lid sid p) = type_str t @ '':'' @ u"
  by (simp add: jobData_def)

lemma job_id_eq_iff:
  "(job_id (jobData t1 uid1 pid1 u1 td1 lid1 sid1 p1)
      = job_id (jobData t2 uid2 pid2 u2 td2 lid2 sid2 p2))
     = (t1 = t2 \<and> u1 = u2)"
  by (cases t1; cases t2) (auto simp: jobData_def)

lemma addLinkAnalysisJob_fresh:
  assumes "type_str t @ '':'' @ u \<notin> set (map jobId w)"
  shows "addLinkAnalysisJob (Some w) t uid pid u td lid sid =
     Inr (w @ [\<lparr>jobId = type_str t @ '':'' @ u, data = jobData t uid pid u td lid sid 1,
                opts_priority = 1, opts_attempts = 3, attemptsMade = 0\<rparr>])"
  using assms
  by (simp add: addLinkAnalysisJob_def Let_def queue_add_def jobData_def getUserPriorityBull_def
      MAX_ATTEMPTS_def)

lemma addLinkAnalysisJob_waiting:
  assumes "type_str t @ '':'' @ u \<in> set (map jobId w)"
  shows "addLinkAnalysisJob (Some w) t uid pid u td lid sid = Inr w"
  using assms by (simp add: addLinkAnalysisJob_def Let_def queue_add_def jobData_def)

lemma addLinkAnalysisJob_uninitialised:
  "addLinkAnalysisJob None t uid pid u td lid sid = Inl ''BullMQ Service not initialized''"
  by (simp add: addLinkAnalysisJob_def)

text \<open>
  The ids of the Redis queue's items end in a random suffix: that queue has no
  deduplication, every enqueue gets an id of its own.
\<close>

lemma queueItemId_rnd: "(queueItemId t dateNow rnd = queueItemId t dateNow rnd') = (rnd = rnd')"
  by (simp add: queueItemId_def)

text \<open>
  Claim C3: the job id is deterministic from kind, source URL and project id, so that two
  enqueues differing in any of the three get different ids, and only the re-enqueue of an
  id already waiting is dropped. \<open>addLinkAnalysisJob\<close> breaks this: it leaves the project
  id out of the id. Link link-1 of project-1 is enqueued into the empty queue and waits
  under the id \<open>manual:https://blog.example/post\<close>; link link-9 of project-2, on the same
  source URL, gets the same id, and its enqueue is dropped as a duplicate: the waiting set
  still holds the one job of project-1 and link-1, and nothing will analyse link-9.
\<close>

theorem other_project_job_dropped:
  "addLinkAnalysisJob (Some []) manual ''user-1'' ''project-1''
      ''https://blog.example/post'' ''target.com'' (Some ''link-1'') None = Inr [ex_job]
   \<and> addLinkAnalysisJob (Some [ex_job]) manual ''user-2'' ''project-2''
        ''https://blog.example/post'' ''other-target.com'' (Some ''link-9'') None = Inr [ex_job]
   \<and> map (\<lambda>j. (jobId j, projectId (data j), linkId (data j))) [ex_job]
       = [(''manual:https://blog.example/post'', ''project-1'', Some ''link-1'')]"
  by (simp add: addLinkAnalysisJob_def queue_add_def jobData_def ex_job_def truthy_def
      getUserPriorityBull_def Let_def)

section \<open>Properties of the processor\<close>

lemma processLinkAnalysisJob_returns:
  "\<exists>r. processLinkAnalysisJob job analysed updated now = Returned r"
  by (auto simp: processLinkAnalysisJob_def split: outcome.splits)

lemma worker_settle_processLinkAnalysisJob:
  "\<exists>r. worker_settle job (processLinkAnalysisJob job analysed updated now) = Completed r"
  using processLinkAnalysisJob_returns[of job analysed updated now]
  by (auto simp: worker_settle_def)

text \<open>
  Claim C4: a job whose processing fails is retried with exponential backoff
  (\<open>2000 * 2^attempts\<close> ms while \<open>attempts + 1 < 3\<close>) or moved to the failed store, and
  is never recorded as completed. The processor breaks this: when the database update of
  a first-attempt manual job throws, the processor returns a result object with
  \<open>success = False\<close>, so the job is completed; had the error left the processor, the
  job would have been retried after 2000 ms.
\<close>

theorem failed_job_recorded_completed:
  "worker_settle ex_job
     (processLinkAnalysisJob ex_job (Returned r)
        (Threw (Error ''Connection terminated unexpectedly'')) 1700000000000)
     = Completed \<lparr>success = False, result = None,
                  error = Some ''Connection terminated unexpectedly'',
                  processedAt = 1700000000000\<rparr>
   \<and> worker_settle ex_job (Threw (Error ''Connection terminated unexpectedly''))
       = (Retry 1 2000 :: 'r job_fate)"
  by (simp add: worker_settle_def processLinkAnalysisJob_def job_failure_def error_message_def
      Fail_def ex_job_def jobData_def truthy_def MAX_ATTEMPTS_def BACKOFF_DELAY_def)

end
